theory Spec2Isabelle
  imports Main
begin

section \<open>Data model (schema.ts, db/schema.ts)\<close>

text \<open>
  The enums of \<^verbatim>\<open>schema.ts\<close>. A cell is a player or \<^verbatim>\<open>null\<close>; \<open>None\<close> stands for
  \<^verbatim>\<open>null\<close>. A board is the JSON array stored in the \<^verbatim>\<open>board\<close> column. Dates are their
  time values (milliseconds since the epoch).
\<close>

text \<open>The players \<^verbatim>\<open>'X'\<close> and \<^verbatim>\<open>'O'\<close>.\<close>

datatype Player = Player_X | Player_O

datatype GameStatus = waiting | in_progress | completed

datatype GameResult = X_wins | O_wins | draw | ongoing

type_synonym Cell = "Player option"

type_synonym Board = "Cell list"

type_synonym Date = int

text \<open>A row of \<^verbatim>\<open>gamesTable\<close>; the column \<^verbatim>\<open>id\<close> is the field \<open>id_col\<close>.\<close>

record Game =
  id_col :: int
  board :: Board
  current_player :: Player
  status :: GameStatus
  result :: GameResult
  winner :: "Player option"
  created_at :: Date
  updated_at :: Date


text \<open>
  The inputs: \<^verbatim>\<open>getGameInputSchema\<close> and \<^verbatim>\<open>resetGameInputSchema\<close> are both
  \<^verbatim>\<open>{game_id: number}\<close>; \<^verbatim>\<open>makeMoveInputSchema\<close> adds \<^verbatim>\<open>position\<close> and \<^verbatim>\<open>player\<close>.
  The type of \<^verbatim>\<open>game_id\<close> is a parameter of the record: \<open>getGame\<close> is given every
  number that its schema admits; \<open>makeMove\<close> and \<open>resetGame\<close> are given the
  identifier as an integer.
\<close>

record 'n GetGameInput =
  game_id :: 'n

type_synonym ResetGameInput = "int GetGameInput"

record MakeMoveInput = "int GetGameInput" +
  position :: int
  player :: Player

text \<open>
  What the handlers throw. The messages of the source are
  \<^verbatim>\<open>Game with id N not found\<close>, \<^verbatim>\<open>Game is already completed\<close>,
  \<^verbatim>\<open>Game is not yet started\<close>, \<^verbatim>\<open>It's not P's turn. Current player is Q\<close> and
  \<^verbatim>\<open>Position N is already occupied\<close>. \<open>TypeError\<close> is the property read on
  \<^verbatim>\<open>undefined\<close> when a \<^verbatim>\<open>returning()\<close> yields no row. \<open>BAD_REQUEST\<close> is the
  request layer's rejection of an input that fails its schema.
\<close>

datatype zod_issue = too_small | too_big

datatype error =
    NotFound int
  | GameAlreadyCompleted
  | GameNotStarted
  | WrongTurn Player Player
  | PositionOccupied int
  | TypeError
  | BAD_REQUEST "zod_issue list"

section \<open>The table and its queries\<close>

text \<open>
  The database holds the rows of \<^verbatim>\<open>gamesTable\<close> and the sequence behind the
  \<^verbatim>\<open>serial\<close> primary key (its last value).
\<close>

record database =
  games :: "Game list"
  games_id_seq :: int

text \<open>\<^verbatim>\<open>db.select().from(gamesTable).where(eq(gamesTable.id, gid)).execute()\<close>\<close>

definition select_where_id :: "database \<Rightarrow> int \<Rightarrow> Game list" where
  "select_where_id db gid = filter (\<lambda>row. id_col row = gid) (games db)"




text \<open>
  \<^verbatim>\<open>db.update(gamesTable).set(...).where(eq(gamesTable.id, gid)).returning().execute()\<close>:
  the rows that match are replaced, and returned as they are after the update.
\<close>

definition update_where_id ::
  "database \<Rightarrow> int \<Rightarrow> (Game \<Rightarrow> Game) \<Rightarrow> Game list \<times> database" where
  "update_where_id db gid set_cols =
     (map set_cols (filter (\<lambda>row. id_col row = gid) (games db)),
      db\<lparr>games := map (\<lambda>row. if id_col row = gid then set_cols row else row) (games db)\<rparr>)"

text \<open>
  \<^verbatim>\<open>db.insert(gamesTable).values(...).returning().execute()\<close>: the identifier is the
  next value of the sequence, and both timestamps default to the current time.
\<close>

definition insert_returning ::
  "Date \<Rightarrow> database \<Rightarrow> Board \<Rightarrow> Player \<Rightarrow> GameStatus \<Rightarrow> GameResult \<Rightarrow> Player option
     \<Rightarrow> Game list \<times> database" where
  "insert_returning now db b cp st res w =
     (let row = \<lparr>id_col = games_id_seq db + 1, board = b, current_player = cp, status = st,
                 result = res, winner = w, created_at = now, updated_at = now\<rparr>
      in ([row], db\<lparr>games := games db @ [row], games_id_seq := games_id_seq db + 1\<rparr>))"

section \<open>Arrays\<close>

text \<open>
  Reading \<^verbatim>\<open>board[i]\<close>: outside the array the value is \<^verbatim>\<open>undefined\<close>, here \<open>None\<close>;
  inside, it is \<open>Some\<close> of the cell.
\<close>

definition js_index :: "'a list \<Rightarrow> int \<Rightarrow> 'a option" where
  "js_index xs i = (if 0 \<le> i \<and> i < int (length xs) then Some (xs ! nat i) else None)"

text \<open>
  Array objects live in a store, addressed by their index in it.
  \<open>array_spread\<close> is \<^verbatim>\<open>[...a]\<close>: a new array with the same elements.
  \<open>array_assign\<close> is \<^verbatim>\<open>a[i] = v\<close> for \<open>i\<close> inside the array.
\<close>

type_synonym array_store = "Board list"

definition array_spread :: "array_store \<Rightarrow> nat \<Rightarrow> nat \<times> array_store" where
  "array_spread s a = (length s, s @ [s ! a])"

definition array_assign :: "array_store \<Rightarrow> nat \<Rightarrow> nat \<Rightarrow> Cell \<Rightarrow> array_store" where
  "array_assign s a i v = s[a := (s ! a)[i := v]]"

section \<open>handlers/make_move.ts\<close>

definition winPatterns :: "int list list" where
  "winPatterns =
     [[0, 1, 2], [3, 4, 5], [6, 7, 8],
      [0, 3, 6], [1, 4, 7], [2, 5, 8],
      [0, 4, 8], [2, 4, 6]]"

definition checkWinCondition :: "Board \<Rightarrow> Player \<Rightarrow> bool" where
  "checkWinCondition b p =
     list_ex (\<lambda>pattern. list_all (\<lambda>pos. js_index b pos = Some (Some p)) pattern) winPatterns"

definition isBoardFull :: "Board \<Rightarrow> bool" where
  "isBoardFull b = list_all (\<lambda>cell. cell \<noteq> None) b"

definition determineGameResult :: "Board \<Rightarrow> Player \<Rightarrow> GameResult" where
  "determineGameResult b currentPlayer =
     (if checkWinCondition b currentPlayer
      then (if currentPlayer = Player_X then X_wins else O_wins)
      else if isBoardFull b then draw
      else ongoing)"

text \<open>
  Step 5 of \<^verbatim>\<open>makeMove\<close>, \<^verbatim>\<open>const newBoard = [...board]; newBoard[position] = player\<close>,
  run on a store that holds the fetched board at address 0. It returns the final store and
  the address of \<^verbatim>\<open>newBoard\<close>.
\<close>

definition place_mark :: "Board \<Rightarrow> nat \<Rightarrow> Player \<Rightarrow> array_store \<times> nat" where
  "place_mark b pos p =
     (let s0 = [b];
          (newBoard, s1) = array_spread s0 0;
          s2 = array_assign s1 newBoard pos (Some p)
      in (s2, newBoard))"

text \<open>
  \<^verbatim>\<open>makeMove\<close>, with the clock reading \<open>now\<close> that \<^verbatim>\<open>new Date()\<close> gives. It returns what
  the promise settles to (\<open>Inl\<close> a thrown error, \<open>Inr\<close> the game) and the database
  afterwards. The write \<^verbatim>\<open>newBoard[input.position]\<close> is reached only when
  \<^verbatim>\<open>board[input.position] === null\<close>, so only inside the array (lemma
  \<open>js_index_null_in_range\<close>). The \<^verbatim>\<open>catch\<close> block logs the error and throws it again.
\<close>

definition makeMove :: "Date \<Rightarrow> MakeMoveInput \<Rightarrow> database \<Rightarrow> (error + Game) \<times> database" where
  "makeMove now input db =
     (let games_found = select_where_id db (game_id input)
      in case games_found of
           [] \<Rightarrow> (Inl (NotFound (game_id input)), db)
         | game # _ \<Rightarrow>
             if status game = completed then (Inl GameAlreadyCompleted, db)
             else if status game = waiting then (Inl GameNotStarted, db)
             else if current_player game \<noteq> player input
               then (Inl (WrongTurn (player input) (current_player game)), db)
             else if js_index (board game) (position input) \<noteq> Some None
               then (Inl (PositionOccupied (position input)), db)
             else
               let (s, nb) = place_mark (board game) (nat (position input)) (player input);
                   newBoard = s ! nb;
                   gameResult = determineGameResult newBoard (player input);
                   nextPlayer = (if player input = Player_X then Player_O else Player_X);
                   gameCompleted = (gameResult \<noteq> ongoing);
                   winner_new = (if gameResult = X_wins then Some Player_X
                                 else if gameResult = O_wins then Some Player_O else None);
                   (rows, db') = update_where_id db (game_id input)
                      (\<lambda>row. row\<lparr>board := newBoard,
                                 current_player := (if gameCompleted then player input else nextPlayer),
                                 status := (if gameCompleted then completed else in_progress),
                                 result := gameResult,
                                 winner := winner_new,
                                 updated_at := now\<rparr>)
               in (case rows of
                     [] \<Rightarrow> (Inl TypeError, db')
                   | updatedGame # _ \<Rightarrow> (Inr (updatedGame\<lparr>board := board updatedGame\<rparr>), db')))"

text \<open>
  The request layer (the router's \<^verbatim>\<open>makeMove\<close> procedure): the input is validated
  against \<^verbatim>\<open>makeMoveInputSchema\<close> first, where \<^verbatim>\<open>position\<close> is
  \<^verbatim>\<open>z.number().int().min(0).max(8)\<close>; the handler runs only on an input without issues.
\<close>

definition makeMoveInputSchema :: "MakeMoveInput \<Rightarrow> zod_issue list" where
  "makeMoveInputSchema input =
     (if position input < 0 then [too_small] else []) @
     (if position input > 8 then [too_big] else [])"

definition makeMove_procedure ::
  "Date \<Rightarrow> MakeMoveInput \<Rightarrow> database \<Rightarrow> (error + Game) \<times> database" where
  "makeMove_procedure now input db =
     (case makeMoveInputSchema input of
        [] \<Rightarrow> makeMove now input db
      | issue # issues \<Rightarrow> (Inl (BAD_REQUEST (issue # issues)), db))"

section \<open>The other handlers\<close>

text \<open>\<^verbatim>\<open>createGame\<close>: the insert leaves \<^verbatim>\<open>id\<close>, \<^verbatim>\<open>created_at\<close> and \<^verbatim>\<open>updated_at\<close> to the table's defaults.\<close>

definition createGame :: "Date \<Rightarrow> database \<Rightarrow> (error + Game) \<times> database" where
  "createGame now db =
     (let emptyBoard = replicate 9 None;
          (rows, db') = insert_returning now db emptyBoard Player_X in_progress ongoing None
      in case rows of
           [] \<Rightarrow> (Inl TypeError, db')
         | game # _ \<Rightarrow> (Inr (game\<lparr>board := board game\<rparr>), db'))"

definition resetGame :: "Date \<Rightarrow> ResetGameInput \<Rightarrow> database \<Rightarrow> (error + Game) \<times> database" where
  "resetGame now input db =
     (let existingGame = select_where_id db (game_id input)
      in if length existingGame = 0 then (Inl (NotFound (game_id input)), db)
         else
           let emptyBoard = replicate 9 None;
               (rows, db') = update_where_id db (game_id input)
                  (\<lambda>row. row\<lparr>board := emptyBoard,
                             current_player := Player_X,
                             status := in_progress,
                             result := ongoing,
                             winner := None,
                             updated_at := now\<rparr>)
           in case rows of
                [] \<Rightarrow> (Inl TypeError, db')
              | game # _ \<Rightarrow> (Inr (game\<lparr>board := board game\<rparr>), db'))"


section \<open>The columns a move sets\<close>

text \<open>
  The object that step 8 of \<^verbatim>\<open>makeMove\<close> passes to \<^verbatim>\<open>set\<close>, computed from the fetched
  \<open>game\<close> and applied to a \<open>row\<close>: steps 5 to 7 with the store of arrays read off.
  Lemma \<open>makeMove_found\<close> shows that \<open>makeMove\<close> sets exactly these columns.
\<close>

definition move_columns :: "Date \<Rightarrow> MakeMoveInput \<Rightarrow> Game \<Rightarrow> Game \<Rightarrow> Game" where
  "move_columns now input game row =
     (let newBoard = (board game)[nat (position input) := Some (player input)];
          gameResult = determineGameResult newBoard (player input);
          nextPlayer = (if player input = Player_X then Player_O else Player_X);
          gameCompleted = (gameResult \<noteq> ongoing)
      in row\<lparr>board := newBoard,
             current_player := (if gameCompleted then player input else nextPlayer),
             status := (if gameCompleted then completed else in_progress),
             result := gameResult,
             winner := (if gameResult = X_wins then Some Player_X
                        else if gameResult = O_wins then Some Player_O else None),
             updated_at := now\<rparr>)"

section \<open>The specification's side\<close>

text \<open>
  The outcome as the specification words it: the 8 fixed triples (3 rows, 3 columns,
  2 diagonals) are tested against the mover's mark; if any triple is all the mover's mark,
  the outcome is the mover's win; if there is no win and every one of the 9 cells is
  non-empty, it is a draw; otherwise the game is ongoing.
\<close>

definition spec_triples :: "nat set list" where
  "spec_triples = [{0, 1, 2}, {3, 4, 5}, {6, 7, 8}, {0, 3, 6}, {1, 4, 7}, {2, 5, 8}, {0, 4, 8}, {2, 4, 6}]"

definition spec_win :: "Board \<Rightarrow> Player \<Rightarrow> bool" where
  "spec_win b mover = (\<exists>t \<in> set spec_triples. \<forall>i \<in> t. b ! i = Some mover)"

definition spec_all_filled :: "Board \<Rightarrow> bool" where
  "spec_all_filled b = (\<forall>i < 9. b ! i \<noteq> None)"

definition spec_outcome :: "Board \<Rightarrow> Player \<Rightarrow> GameResult" where
  "spec_outcome b mover =
     (if spec_win b mover then (case mover of Player_X \<Rightarrow> X_wins | Player_O \<Rightarrow> O_wins)
      else if spec_all_filled b then draw
      else ongoing)"

text \<open>
  The two invariants of a game record: the winner is present exactly when the outcome is
  a win, and is then the player who won; the status is completed exactly when the outcome
  is not ongoing.
\<close>

definition winner_invariant :: "Game \<Rightarrow> bool" where
  "winner_invariant g =
     (((winner g \<noteq> None) = (result g = X_wins \<or> result g = O_wins)) \<and>
      (result g = X_wins \<longrightarrow> winner g = Some Player_X) \<and>
      (result g = O_wins \<longrightarrow> winner g = Some Player_O))"

definition status_invariant :: "Game \<Rightarrow> bool" where
  "status_invariant g = ((status g = completed) = (result g \<noteq> ongoing))"

section \<open>Example states\<close>

text \<open>A database that holds one game, as \<^verbatim>\<open>createGame\<close> leaves it at time 1000.\<close>

definition fresh_game :: Game where
  "fresh_game =
     \<lparr>id_col = 1, board = replicate 9 None, current_player = Player_X, status = in_progress,
      result = ongoing, winner = None, created_at = 1000, updated_at = 1000\<rparr>"

definition fresh_db :: database where
  "fresh_db = \<lparr>games = [fresh_game], games_id_seq = 1\<rparr>"

text \<open>
  A game that X has won on the top row, and one where X holds cells 0 and 1 and is to
  move; a database with both.
\<close>

definition won_game :: Game where
  "won_game =
     \<lparr>id_col = 2,
      board = [Some Player_X, Some Player_X, Some Player_X,
               Some Player_O, Some Player_O, None,
               None, None, None],
      current_player = Player_X, status = completed,
      result = X_wins, winner = Some Player_X, created_at = 1000, updated_at = 1500\<rparr>"

definition open_game :: Game where
  "open_game =
     \<lparr>id_col = 3,
      board = [Some Player_X, Some Player_X, None,
               Some Player_O, Some Player_O, None,
               None, None, None],
      current_player = Player_X, status = in_progress,
      result = ongoing, winner = None, created_at = 1200, updated_at = 1600\<rparr>"

definition played_db :: database where
  "played_db = \<lparr>games = [won_game, open_game], games_id_seq = 3\<rparr>"

text \<open>
  Two moves and the records they lead to at time 2000: X takes the centre of the fresh
  game; X takes cell 2 of the open game and completes the top row.
\<close>

definition centre_move :: MakeMoveInput where
  "centre_move = \<lparr>game_id = 1, position = 4, player = Player_X\<rparr>"

definition after_centre_move :: Game where
  "after_centre_move =
     fresh_game\<lparr>board := [None, None, None, None, Some Player_X, None, None, None, None],
                current_player := Player_O, updated_at := 2000\<rparr>"

definition winning_move :: MakeMoveInput where
  "winning_move = \<lparr>game_id = 3, position = 2, player = Player_X\<rparr>"

definition after_winning_move :: Game where
  "after_winning_move =
     open_game\<lparr>board := [Some Player_X, Some Player_X, Some Player_X,
                          Some Player_O, Some Player_O, None,
                          None, None, None],
               status := completed, result := X_wins, winner := Some Player_X,
               updated_at := 2000\<rparr>"

text \<open>The won game after a reset at time 3000.\<close>

definition after_reset :: Game where
  "after_reset =
     won_game\<lparr>board := replicate 9 None, current_player := Player_X, status := in_progress,
              result := ongoing, winner := None, updated_at := 3000\<rparr>"

section \<open>Lemmas about the queries\<close>

lemma js_index_Some:
  "js_index xs i = Some v \<Longrightarrow> 0 \<le> i \<and> nat i < length xs \<and> xs ! nat i = v"
  by (auto simp: js_index_def split: if_splits)

lemma js_index_null_in_range:
  "js_index b i = Some None \<Longrightarrow> 0 \<le> i \<and> nat i < length b \<and> b ! nat i = None"
  by (rule js_index_Some)

lemma js_index_outside:
  "i < 0 \<or> int (length xs) \<le> i \<Longrightarrow> js_index xs i = None"
  by (auto simp: js_index_def)

lemma place_mark_eq: "place_mark b pos p = ([b, b[pos := Some p]], 1)"
  by (simp add: place_mark_def array_spread_def array_assign_def)

lemma filter_id_unique:
  "distinct (map id_col xs) \<Longrightarrow> (g::Game) \<in> set xs \<Longrightarrow>
   filter (\<lambda>row. id_col row = id_col g) xs = [g]"
proof (induction xs)
  case Nil
  then show ?case by simp
next
  case (Cons a xs)
  show ?case
  proof (cases "a = g")
    case True
    with Cons.prems have "id_col g \<notin> id_col ` set xs" by simp
    then have "\<forall>x \<in> set xs. id_col x \<noteq> id_col g" by (metis imageI)
    then have "filter (\<lambda>row. id_col row = id_col g) xs = []"
      by (simp add: filter_empty_conv)
    with True show ?thesis by simp
  next
    case False
    with Cons.prems have g: "g \<in> set xs" and d: "distinct (map id_col xs)" by auto
    from Cons.prems g have "id_col a \<noteq> id_col g" by force
    with Cons.IH [OF d g] show ?thesis by simp
  qed
qed

lemma select_where_id_pk:
  "distinct (map id_col (games db)) \<Longrightarrow> g \<in> set (games db) \<Longrightarrow>
   select_where_id db (id_col g) = [g]"
  by (simp add: select_where_id_def filter_id_unique)


section \<open>makeMove, once the game is found\<close>

lemma makeMove_not_found:
  "select_where_id db (game_id input) = [] \<Longrightarrow>
   makeMove now input db = (Inl (NotFound (game_id input)), db)"
  by (simp add: makeMove_def)

lemma makeMove_found:
  assumes "select_where_id db (game_id input) = game # rest"
  shows "makeMove now input db =
     (if status game = completed then (Inl GameAlreadyCompleted, db)
      else if status game = waiting then (Inl GameNotStarted, db)
      else if current_player game \<noteq> player input
        then (Inl (WrongTurn (player input) (current_player game)), db)
      else if js_index (board game) (position input) \<noteq> Some None
        then (Inl (PositionOccupied (position input)), db)
      else
        (Inr (move_columns now input game game),
         db\<lparr>games := map (\<lambda>row. if id_col row = game_id input
                                  then move_columns now input game row else row)
                        (games db)\<rparr>))"
  using assms
  by (simp add: makeMove_def place_mark_eq update_where_id_def select_where_id_def
      move_columns_def Let_def)

lemma makeMove_success:
  assumes "fst (makeMove now input db) = Inr g'"
  obtains game rest where
    "select_where_id db (game_id input) = game # rest"
    "status game = in_progress" "current_player game = player input"
    "js_index (board game) (position input) = Some None"
    "g' = move_columns now input game game"
proof (cases "select_where_id db (game_id input)")
  case Nil
  with assms show ?thesis by (simp add: makeMove_not_found)
next
  case (Cons game rest)
  have st: "status game = in_progress"
    using assms makeMove_found [OF Cons, of now]
    by (cases "status game") (simp_all split: if_splits)
  from assms makeMove_found [OF Cons, of now] st
  show ?thesis
    by (intro that [OF Cons st]) (simp_all split: if_splits)
qed

section \<open>The code's outcome is the specification's\<close>

lemma checkWinCondition_spec:
  "length b = 9 \<Longrightarrow> checkWinCondition b p = spec_win b p"
  by (simp add: checkWinCondition_def spec_win_def winPatterns_def spec_triples_def js_index_def)

lemma isBoardFull_spec:
  "length b = 9 \<Longrightarrow> isBoardFull b = spec_all_filled b"
  by (simp add: isBoardFull_def spec_all_filled_def list_all_length)

lemma determineGameResult_spec:
  "length b = 9 \<Longrightarrow> determineGameResult b p = spec_outcome b p"
  by (cases p)
     (simp_all add: determineGameResult_def spec_outcome_def checkWinCondition_spec isBoardFull_spec)

lemmas example_defs =
  played_db_def open_game_def won_game_def fresh_db_def fresh_game_def
  centre_move_def after_centre_move_def winning_move_def after_winning_move_def after_reset_def

lemmas handler_defs =
  makeMove_def select_where_id_def update_where_id_def js_index_def
  place_mark_def array_spread_def array_assign_def determineGameResult_def
  checkWinCondition_def winPatterns_def isBoardFull_def Let_def

section \<open>Claims about makeMove\<close>

text \<open>
  C1. For a stored game in progress (a board of 9 cells), the player whose turn it is and
  an empty position between 0 and 8, \<open>makeMove\<close> succeeds, the returned board is the old
  one with the player's mark at the position, and the returned outcome is the one the
  specification words: the mover's win if and only if one of the 8 triples holds only the
  mover's mark on the updated board; otherwise a draw if and only if all 9 cells are
  non-empty; otherwise ongoing.
\<close>

theorem makeMove_outcome:
  assumes "distinct (map id_col (games db))" and "g \<in> set (games db)"
    and "game_id input = id_col g"
    and "status g = in_progress" and "current_player g = player input"
    and "length (board g) = 9"
    and "0 \<le> position input" and "position input \<le> 8"
    and "board g ! nat (position input) = None"
  shows "\<exists>g'. fst (makeMove now input db) = Inr g' \<and>
           board g' = (board g)[nat (position input) := Some (player input)] \<and>
           result g' = spec_outcome (board g') (player input)"
proof -
  have sel: "select_where_id db (game_id input) = g # []"
    using assms(1-3) by (simp add: select_where_id_pk)
  have idx: "js_index (board g) (position input) = Some None"
    using assms(6-9) by (simp add: js_index_def)
  have "fst (makeMove now input db) = Inr (move_columns now input g g)"
    using assms(4,5) idx by (simp add: makeMove_found [OF sel])
  moreover have "board (move_columns now input g g) =
      (board g)[nat (position input) := Some (player input)]"
    by (simp add: move_columns_def Let_def)
  moreover have "result (move_columns now input g g) =
      spec_outcome ((board g)[nat (position input) := Some (player input)]) (player input)"
    using assms(6) by (simp add: move_columns_def Let_def determineGameResult_spec)
  ultimately show ?thesis by simp
qed

text \<open>The winning move on the open game: the top row is complete, the outcome is X's win.\<close>

theorem makeMove_outcome_witness:
  "distinct (map id_col (games played_db)) \<and> open_game \<in> set (games played_db) \<and>
   game_id winning_move = id_col open_game \<and>
   status open_game = in_progress \<and> current_player open_game = player winning_move \<and>
   length (board open_game) = 9 \<and>
   0 \<le> position winning_move \<and> position winning_move \<le> 8 \<and>
   board open_game ! nat (position winning_move) = None \<and>
   fst (makeMove 2000 winning_move played_db) = Inr after_winning_move \<and>
   board after_winning_move = (board open_game)[2 := Some Player_X] \<and>
   result after_winning_move = X_wins \<and>
   spec_outcome (board after_winning_move) Player_X = X_wins"
  using makeMove_outcome [of played_db open_game winning_move 2000]
  by (simp add: example_defs handler_defs spec_outcome_def spec_win_def spec_triples_def)

text \<open>
  C2. When \<open>makeMove\<close> succeeds, the returned current player is the mover if the returned
  outcome is not ongoing, and the other player if it is ongoing.
\<close>

theorem makeMove_whose_turn:
  assumes "fst (makeMove now input db) = Inr g'"
  shows "current_player g' =
     (if result g' \<noteq> ongoing then player input
      else if player input = Player_X then Player_O else Player_X)"
proof -
  from assms obtain game rest where "g' = move_columns now input game game"
    by (rule makeMove_success)
  then show ?thesis by (simp add: move_columns_def Let_def)
qed

text \<open>The centre move passes the turn to O; the winning move leaves it with X.\<close>

theorem makeMove_whose_turn_witness:
  "fst (makeMove 2000 centre_move fresh_db) = Inr after_centre_move \<and>
   result after_centre_move = ongoing \<and> player centre_move = Player_X \<and>
   current_player after_centre_move = Player_O \<and>
   fst (makeMove 2000 winning_move played_db) = Inr after_winning_move \<and>
   result after_winning_move = X_wins \<and> player winning_move = Player_X \<and>
   current_player after_winning_move = Player_X"
  using makeMove_whose_turn [of 2000 centre_move fresh_db after_centre_move]
    makeMove_whose_turn [of 2000 winning_move played_db after_winning_move]
  by (simp add: example_defs handler_defs eval_nat_numeral)

text \<open>
  C3, as the claim states it, fails: the handler has no check of the range. On the fresh
  game, where it is X's turn, position 9 reads \<^verbatim>\<open>undefined\<close> from the board, which is not
  \<^verbatim>\<open>null\<close>, and the handler throws \<^verbatim>\<open>Position 9 is already occupied\<close>.
\<close>

theorem makeMove_out_of_range_counterexample:
  "fst (makeMove 2000 \<lparr>game_id = 1, position = 9, player = Player_X\<rparr> fresh_db) =
     Inl (PositionOccupied 9)"
  by (simp add: makeMove_def select_where_id_def fresh_db_def fresh_game_def js_index_def)

text \<open>
  C3, amended. For a stored game in progress (a board of 9 cells), the player whose turn it
  is and an integer position outside 0..8: the handler \<open>makeMove\<close> fails with the
  position-occupied error and leaves the database unchanged; the range is checked by the
  request layer, whose schema rejects the input (too small below 0, too big above 8) before
  the handler runs, and the database is unchanged there too.
\<close>

theorem makeMove_out_of_range:
  assumes "distinct (map id_col (games db))" and "g \<in> set (games db)"
    and "game_id input = id_col g"
    and "status g = in_progress" and "current_player g = player input"
    and "length (board g) = 9"
    and "position input < 0 \<or> 8 < position input"
  shows "makeMove now input db = (Inl (PositionOccupied (position input)), db) \<and>
         makeMove_procedure now input db =
           (Inl (BAD_REQUEST (if position input < 0 then [too_small] else [too_big])), db)"
proof -
  have sel: "select_where_id db (game_id input) = g # []"
    using assms(1-3) by (simp add: select_where_id_pk)
  have "js_index (board g) (position input) = None"
    using assms(6,7) by (intro js_index_outside) auto
  with assms(4,5) have "makeMove now input db = (Inl (PositionOccupied (position input)), db)"
    by (simp add: makeMove_found [OF sel])
  moreover from assms(7) have "makeMove_procedure now input db =
      (Inl (BAD_REQUEST (if position input < 0 then [too_small] else [too_big])), db)"
    by (auto simp: makeMove_procedure_def makeMoveInputSchema_def)
  ultimately show ?thesis by simp
qed

text \<open>Position -1 on the fresh game.\<close>

theorem makeMove_out_of_range_witness:
  "distinct (map id_col (games fresh_db)) \<and> fresh_game \<in> set (games fresh_db) \<and>
   status fresh_game = in_progress \<and> current_player fresh_game = Player_X \<and>
   length (board fresh_game) = 9 \<and>
   makeMove 2000 \<lparr>game_id = 1, position = - 1, player = Player_X\<rparr> fresh_db =
     (Inl (PositionOccupied (- 1)), fresh_db) \<and>
   makeMove_procedure 2000 \<lparr>game_id = 1, position = - 1, player = Player_X\<rparr> fresh_db =
     (Inl (BAD_REQUEST [too_small]), fresh_db)"
  using makeMove_out_of_range [of fresh_db fresh_game
      "\<lparr>game_id = 1, position = - 1, player = Player_X\<rparr>" 2000]
  by (simp add: fresh_db_def fresh_game_def)

text \<open>
  C4. For a stored game whose status is completed, \<open>makeMove\<close> fails with
  \<^verbatim>\<open>Game is already completed\<close> for every position and every player, whatever else is
  wrong with the move, and leaves the database unchanged.
\<close>

theorem makeMove_completed:
  assumes "distinct (map id_col (games db))" and "g \<in> set (games db)"
    and "game_id input = id_col g" and "status g = completed"
  shows "makeMove now input db = (Inl GameAlreadyCompleted, db)"
proof -
  have "select_where_id db (game_id input) = g # []"
    using assms(1-3) by (simp add: select_where_id_pk)
  from makeMove_found [OF this] assms(4) show ?thesis by simp
qed

text \<open>
  On the won game, a move by O (it is X's turn) to position 42 (out of range), and a move
  by O to the occupied cell 0.
\<close>

theorem makeMove_completed_witness:
  "distinct (map id_col (games played_db)) \<and> won_game \<in> set (games played_db) \<and>
   status won_game = completed \<and> current_player won_game = Player_X \<and>
   makeMove 2000 \<lparr>game_id = 2, position = 42, player = Player_O\<rparr> played_db =
     (Inl GameAlreadyCompleted, played_db) \<and>
   makeMove 2000 \<lparr>game_id = 2, position = 0, player = Player_O\<rparr> played_db =
     (Inl GameAlreadyCompleted, played_db)"
  using makeMove_completed [of played_db won_game
      "\<lparr>game_id = 2, position = 42, player = Player_O\<rparr>" 2000]
    makeMove_completed [of played_db won_game
      "\<lparr>game_id = 2, position = 0, player = Player_O\<rparr>" 2000]
  by (simp add: played_db_def won_game_def open_game_def)

text \<open>
  C5. Whenever \<open>makeMove\<close> fails, with whatever error, the database afterwards is the
  database before: no row and no column of it has changed.
\<close>

theorem makeMove_failure:
  assumes "fst (makeMove now input db) = Inl e"
  shows "snd (makeMove now input db) = db"
proof (cases "select_where_id db (game_id input)")
  case Nil
  then show ?thesis by (simp add: makeMove_not_found)
next
  case (Cons game rest)
  from assms show ?thesis
    unfolding makeMove_found [OF Cons] by (simp split: if_splits)
qed

text \<open>A move to an occupied cell, a move out of turn and a move on an unknown game.\<close>

theorem makeMove_failure_witness:
  "fst (makeMove 2000 \<lparr>game_id = 3, position = 0, player = Player_X\<rparr> played_db) =
     Inl (PositionOccupied 0) \<and>
   snd (makeMove 2000 \<lparr>game_id = 3, position = 0, player = Player_X\<rparr> played_db) = played_db \<and>
   fst (makeMove 2000 \<lparr>game_id = 3, position = 2, player = Player_O\<rparr> played_db) =
     Inl (WrongTurn Player_O Player_X) \<and>
   snd (makeMove 2000 \<lparr>game_id = 3, position = 2, player = Player_O\<rparr> played_db) = played_db \<and>
   fst (makeMove 2000 \<lparr>game_id = 999, position = 0, player = Player_X\<rparr> played_db) =
     Inl (NotFound 999) \<and>
   snd (makeMove 2000 \<lparr>game_id = 999, position = 0, player = Player_X\<rparr> played_db) = played_db"
  using makeMove_failure [of 2000 "\<lparr>game_id = 3, position = 0, player = Player_X\<rparr>" played_db
      "PositionOccupied 0"]
    makeMove_failure [of 2000 "\<lparr>game_id = 3, position = 2, player = Player_O\<rparr>" played_db
      "WrongTurn Player_O Player_X"]
    makeMove_failure [of 2000 "\<lparr>game_id = 999, position = 0, player = Player_X\<rparr>" played_db
      "NotFound 999"]
  by (simp add: makeMove_def select_where_id_def js_index_def played_db_def won_game_def
      open_game_def)

text \<open>
  C7. When \<open>makeMove\<close> succeeds on a stored game at position \<open>p\<close>: \<open>p\<close> is inside the
  board and that cell was empty; the returned board has the same length, holds the player's
  mark at \<open>p\<close> and agrees with the old board everywhere else; the identifier and
  \<^verbatim>\<open>created_at\<close> are those of the stored game and \<^verbatim>\<open>updated_at\<close> is the clock reading. The
  array fetched from the database is not written to: in the store of arrays it still holds
  the old board at address 0, and the returned board is a second array at another address.
\<close>

theorem makeMove_frame:
  assumes "distinct (map id_col (games db))" and "g \<in> set (games db)"
    and "game_id input = id_col g"
    and "fst (makeMove now input db) = Inr g'"
  shows "0 \<le> position input \<and> nat (position input) < length (board g) \<and>
         board g ! nat (position input) = None \<and>
         length (board g') = length (board g) \<and>
         board g' ! nat (position input) = Some (player input) \<and>
         (\<forall>i < length (board g). i \<noteq> nat (position input) \<longrightarrow> board g' ! i = board g ! i) \<and>
         id_col g' = id_col g \<and> created_at g' = created_at g \<and> updated_at g' = now \<and>
         fst (place_mark (board g) (nat (position input)) (player input)) ! 0 = board g \<and>
         snd (place_mark (board g) (nat (position input)) (player input)) \<noteq> 0 \<and>
         fst (place_mark (board g) (nat (position input)) (player input)) !
           snd (place_mark (board g) (nat (position input)) (player input)) = board g'"
proof -
  have sel: "select_where_id db (game_id input) = [g]"
    using assms(1-3) by (simp add: select_where_id_pk)
  from assms(4) obtain game rest where
    "select_where_id db (game_id input) = game # rest"
    and idx: "js_index (board game) (position input) = Some None"
    and g': "g' = move_columns now input game game"
    by (rule makeMove_success)
  with sel have game: "game = g" by simp
  note rng = js_index_null_in_range [OF idx [unfolded game]]
  have b: "board g' = (board g)[nat (position input) := Some (player input)]"
    and rest: "id_col g' = id_col g" "created_at g' = created_at g" "updated_at g' = now"
    unfolding g' game by (simp_all add: move_columns_def Let_def)
  from rng b rest show ?thesis by (simp add: place_mark_eq)
qed

text \<open>The centre move on the fresh game.\<close>

theorem makeMove_frame_witness:
  "distinct (map id_col (games fresh_db)) \<and> fresh_game \<in> set (games fresh_db) \<and>
   game_id centre_move = id_col fresh_game \<and>
   fst (makeMove 2000 centre_move fresh_db) = Inr after_centre_move \<and>
   board fresh_game = [None, None, None, None, None, None, None, None, None] \<and>
   board after_centre_move = [None, None, None, None, Some Player_X, None, None, None, None] \<and>
   id_col after_centre_move = id_col fresh_game \<and>
   created_at after_centre_move = created_at fresh_game \<and>
   updated_at after_centre_move = 2000 \<and>
   place_mark (board fresh_game) 4 Player_X = ([board fresh_game, board after_centre_move], 1)"
  using makeMove_frame [of fresh_db fresh_game centre_move 2000 after_centre_move]
  by (simp add: example_defs handler_defs eval_nat_numeral)

section \<open>Claims about the records the handlers produce\<close>

text \<open>
  C6. \<open>createGame\<close> always returns a game, and every game that \<open>createGame\<close>, a successful
  \<open>makeMove\<close> or a successful \<open>resetGame\<close> returns satisfies both invariants: the winner
  is present exactly when the outcome is a win, and is then that player; the status is
  completed exactly when the outcome is not ongoing.
\<close>

theorem handlers_keep_invariants:
  "(\<exists>g'. fst (createGame now db) = Inr g' \<and> winner_invariant g' \<and> status_invariant g') \<and>
   (\<forall>g'. fst (makeMove now' input db') = Inr g' \<longrightarrow>
      winner_invariant g' \<and> status_invariant g') \<and>
   (\<forall>g'. fst (resetGame now'' rinput db'') = Inr g' \<longrightarrow>
      winner_invariant g' \<and> status_invariant g')"
proof (intro conjI allI impI)
  show "\<exists>g'. fst (createGame now db) = Inr g' \<and> winner_invariant g' \<and> status_invariant g'"
    by (simp add: createGame_def insert_returning_def winner_invariant_def status_invariant_def
        Let_def)
next
  fix g' assume "fst (makeMove now' input db') = Inr g'"
  then obtain game where g': "g' = move_columns now' input game game"
    by (rule makeMove_success)
  show "winner_invariant g'"
    unfolding g' by (simp add: move_columns_def Let_def winner_invariant_def)
  show "status_invariant g'"
    unfolding g' by (simp add: move_columns_def Let_def status_invariant_def)
next
  fix g' assume r: "fst (resetGame now'' rinput db'') = Inr g'"
  then have res: "result g' = ongoing \<and> winner g' = None \<and> status g' = in_progress"
    by (auto simp: resetGame_def update_where_id_def Let_def split: if_splits list.splits)
  from res show "winner_invariant g'" by (simp add: winner_invariant_def)
  from res show "status_invariant g'" by (simp add: status_invariant_def)
qed

text \<open>
  The first game created in an empty database, the winning move, and the reset of the won
  game.
\<close>

theorem handlers_keep_invariants_witness:
  "fst (createGame 1000 \<lparr>games = [], games_id_seq = 0\<rparr>) = Inr fresh_game \<and>
   winner_invariant fresh_game \<and> status_invariant fresh_game \<and>
   fst (makeMove 2000 winning_move played_db) = Inr after_winning_move \<and>
   winner_invariant after_winning_move \<and> status_invariant after_winning_move \<and>
   fst (resetGame 3000 \<lparr>game_id = 2\<rparr> played_db) = Inr after_reset \<and>
   winner_invariant after_reset \<and> status_invariant after_reset"
  using handlers_keep_invariants [of 1000 "\<lparr>games = [], games_id_seq = 0\<rparr>" 2000 winning_move
      played_db 3000 "\<lparr>game_id = 2\<rparr>"]
  by (simp add: example_defs handler_defs createGame_def insert_returning_def resetGame_def
      winner_invariant_def status_invariant_def)

text \<open>
  C8, as the claim states it, fails in its last part: \<^verbatim>\<open>updated_at\<close> is set to the clock
  reading, which need not differ from the stored value. A reset of the fresh game at the
  instant of its last update returns the stored record itself, \<^verbatim>\<open>updated_at\<close> included.
\<close>

theorem resetGame_same_instant_counterexample:
  "fresh_game \<in> set (games fresh_db) \<and>
   fst (resetGame (updated_at fresh_game) \<lparr>game_id = id_col fresh_game\<rparr> fresh_db) =
     Inr fresh_game"
  by (simp add: resetGame_def select_where_id_def update_where_id_def fresh_db_def fresh_game_def
      Let_def)

text \<open>
  C8, amended. For every stored game, whatever its status and contents, \<open>resetGame\<close>
  returns a record with a board of 9 empty cells, X to move, status in progress, outcome
  ongoing, no winner, the same identifier and the same \<^verbatim>\<open>created_at\<close>, and \<^verbatim>\<open>updated_at\<close>
  equal to the clock reading at the reset; so \<^verbatim>\<open>updated_at\<close> differs from the stored value
  exactly when the clock reading does.
\<close>

theorem resetGame_initial_state:
  assumes "distinct (map id_col (games db))" and "g \<in> set (games db)"
    and "game_id input = id_col g"
  shows "\<exists>g'. fst (resetGame now input db) = Inr g' \<and>
           board g' = replicate 9 None \<and> current_player g' = Player_X \<and>
           status g' = in_progress \<and> result g' = ongoing \<and> winner g' = None \<and>
           id_col g' = id_col g \<and> created_at g' = created_at g \<and> updated_at g' = now \<and>
           ((updated_at g' = updated_at g) = (now = updated_at g))"
proof -
  have "filter (\<lambda>row. id_col row = id_col g) (games db) = [g]"
    using assms(1,2) by (rule filter_id_unique)
  with assms(3) show ?thesis
    by (simp add: resetGame_def select_where_id_def update_where_id_def Let_def)
qed

text \<open>The reset of the won game at time 3000.\<close>

theorem resetGame_initial_state_witness:
  "distinct (map id_col (games played_db)) \<and> won_game \<in> set (games played_db) \<and>
   game_id \<lparr>game_id = 2\<rparr> = id_col won_game \<and> status won_game = completed \<and>
   fst (resetGame 3000 \<lparr>game_id = 2\<rparr> played_db) = Inr after_reset \<and>
   board after_reset = [None, None, None, None, None, None, None, None, None] \<and>
   current_player after_reset = Player_X \<and> status after_reset = in_progress \<and>
   result after_reset = ongoing \<and> winner after_reset = None \<and>
   id_col after_reset = id_col won_game \<and> created_at after_reset = created_at won_game \<and>
   updated_at after_reset = 3000 \<and> updated_at won_game = 1500"
  using resetGame_initial_state [of played_db won_game "\<lparr>game_id = 2\<rparr>" 3000]
  by (simp add: example_defs resetGame_def select_where_id_def update_where_id_def Let_def
      eval_nat_numeral)

section \<open>Claims about getGame\<close>




section \<open>Outcome classification\<close>

text \<open>
  C10. The outcome computed for the player who moved is never the other player's win, on
  any board at all: it is the mover's own win, a draw, or ongoing. So it is on a board
  where the other player's marks fill a winning triple: with O on the whole top row, the
  outcome computed for X is ongoing.
\<close>

theorem determineGameResult_never_opponent:
  "determineGameResult b Player_X \<noteq> O_wins \<and> determineGameResult b Player_O \<noteq> X_wins \<and>
   (determineGameResult b Player_X = X_wins \<or> determineGameResult b Player_X = draw \<or>
      determineGameResult b Player_X = ongoing) \<and>
   (determineGameResult b Player_O = O_wins \<or> determineGameResult b Player_O = draw \<or>
      determineGameResult b Player_O = ongoing) \<and>
   determineGameResult
     [Some Player_O, Some Player_O, Some Player_O,
      Some Player_X, Some Player_X, None,
      None, None, None] Player_X = ongoing"
proof -
  have "determineGameResult
     [Some Player_O, Some Player_O, Some Player_O,
      Some Player_X, Some Player_X, None,
      None, None, None] Player_X = ongoing"
    by (simp add: determineGameResult_def checkWinCondition_def winPatterns_def isBoardFull_def
        js_index_def)
  then show ?thesis by (simp add: determineGameResult_def)
qed

end
